theory Spec2Isabelle
  imports Main "HOL-Library.Word"
begin

section \<open>Student API: record mapper and request handlers\<close>

text \<open>
  A shallow embedding of \<^verbatim>\<open>app.py\<close>. The pydantic models are records, a request body is
  the Python object that the JSON decoder hands to the validation layer, the MongoDB
  collection \<^verbatim>\<open>students\<close> is the list of its documents in natural order, and every
  handler takes the collection and returns its outcome together with the collection
  it leaves behind. A raised exception is the \<open>Inl\<close> branch of the outcome.
\<close>

subsection \<open>Decoded request bodies\<close>

text \<open>
  What \<^verbatim>\<open>json.loads\<close> produces: \<^verbatim>\<open>None\<close>, \<^verbatim>\<open>bool\<close>, \<^verbatim>\<open>int\<close>, \<^verbatim>\<open>float\<close> (kept as
  its 64 bits, never interpreted here), \<^verbatim>\<open>str\<close>, \<^verbatim>\<open>list\<close> and \<^verbatim>\<open>dict\<close>. A dict is the
  list of the members of the JSON object in the order they were read.
\<close>

datatype json =
    JNull
  | JBool bool
  | JInt int
  | JFloat "64 word"
  | JStr string
  | JArr "json list"
  | JObj "(string \<times> json) list"

text \<open>A key that occurs twice in a JSON object keeps its last value.\<close>

definition dict_get :: "(string \<times> json) list \<Rightarrow> string \<Rightarrow> json option" where
  "dict_get fs k = map_of (rev fs) k"

subsection \<open>Validation\<close>

text \<open>
  An error of the validation layer: its kind and the location of the offending value
  (the path of keys from the body down).
\<close>

datatype error_kind = missing | wrong_type

type_synonym validation_error = "error_kind \<times> string list"

type_synonym 'a validator = "json \<Rightarrow> validation_error list + 'a"

text \<open>\<^verbatim>\<open>str\<close>: a field of this type takes a string and nothing else.\<close>

definition str_validator :: "string validator" where
  "str_validator v = (case v of JStr s \<Rightarrow> Inr s | _ \<Rightarrow> Inl [(wrong_type, [])])"

text \<open>
  \<^verbatim>\<open>int\<close>: which decoded values the validation library reads as an integer (beside the
  integers themselves) is the library's business; the coercion is a parameter
  \<open>int_type\<close> of every function that validates an \<^verbatim>\<open>int\<close> field.
\<close>

definition int_validator :: "(json \<Rightarrow> int option) \<Rightarrow> int validator" where
  "int_validator int_type v =
     (case int_type v of Some i \<Rightarrow> Inr i | None \<Rightarrow> Inl [(wrong_type, [])])"

text \<open>\<^verbatim>\<open>Optional[T]\<close>: \<^verbatim>\<open>None\<close> or a value of type \<^verbatim>\<open>T\<close>.\<close>

definition optional :: "'a validator \<Rightarrow> 'a option validator" where
  "optional val v =
     (case v of
        JNull \<Rightarrow> Inr None
      | _ \<Rightarrow> (case val v of Inl es \<Rightarrow> Inl es | Inr x \<Rightarrow> Inr (Some x)))"

text \<open>
  A field declared without a default (\<^verbatim>\<open>Field(...)\<close> or a bare annotation) is required:
  the key must be in the body, and its value must validate. Errors of the value are
  reported under the key.
\<close>

definition required_field ::
  "(string \<times> json) list \<Rightarrow> string \<Rightarrow> 'a validator \<Rightarrow> validation_error list + 'a" where
  "required_field fs k val =
     (case dict_get fs k of
        None \<Rightarrow> Inl [(missing, [k])]
      | Some v \<Rightarrow>
          (case val v of
             Inl es \<Rightarrow> Inl (map (\<lambda>(e, loc). (e, k # loc)) es)
           | Inr x \<Rightarrow> Inr x))"

definition errors_of :: "validation_error list + 'a \<Rightarrow> validation_error list" where
  "errors_of r = (case r of Inl es \<Rightarrow> es | Inr _ \<Rightarrow> [])"

record AddressModel =
  city :: string
  country :: string

definition AddressModel_validate :: "AddressModel validator" where
  "AddressModel_validate v =
     (case v of
        JObj fs \<Rightarrow>
          (let c = required_field fs ''city'' str_validator;
               k = required_field fs ''country'' str_validator
           in case (c, k) of
                (Inr c', Inr k') \<Rightarrow> Inr \<lparr>city = c', country = k'\<rparr>
              | _ \<Rightarrow> Inl (errors_of c @ errors_of k))
      | _ \<Rightarrow> Inl [(wrong_type, [])])"

text \<open>
  \<^verbatim>\<open>StudentModel\<close>. The field \<^verbatim>\<open>id\<close> (here \<open>id'\<close>) has the alias \<^verbatim>\<open>_id\<close>, may be given
  under either name, defaults to \<^verbatim>\<open>None\<close>, and any value other than \<^verbatim>\<open>None\<close> is turned
  into a string by Python's \<^verbatim>\<open>str\<close> before validation (\<^verbatim>\<open>BeforeValidator(str)\<close>), which
  is the parameter \<open>py_str\<close>.
\<close>

record StudentModel =
  id' :: "string option"
  name :: string
  age :: int
  address :: AddressModel



text \<open>
  \<^verbatim>\<open>UpdateStudentModel\<close>. Its three fields are annotated \<^verbatim>\<open>Optional[...]\<close> and have no
  default, so each of them is required and may be \<^verbatim>\<open>None\<close>. \<open>model_fields_set\<close> is the
  set of the fields that were given when the model was built.
\<close>

record UpdateStudentModel =
  name :: "string option"
  age :: "int option"
  address :: "AddressModel option"
  model_fields_set :: "string set"

definition UpdateStudentModel_validate ::
  "(json \<Rightarrow> int option) \<Rightarrow> UpdateStudentModel validator" where
  "UpdateStudentModel_validate int_type v =
     (case v of
        JObj fs \<Rightarrow>
          (let n = required_field fs ''name'' (optional str_validator);
               a = required_field fs ''age'' (optional (int_validator int_type));
               ad = required_field fs ''address'' (optional AddressModel_validate)
           in case (n, a, ad) of
                (Inr n', Inr a', Inr ad') \<Rightarrow>
                  Inr \<lparr>name = n', age = a', address = ad',
                       model_fields_set = {''name'', ''age'', ''address''}\<rparr>
              | _ \<Rightarrow> Inl (errors_of n @ errors_of a @ errors_of ad))
      | _ \<Rightarrow> Inl [(wrong_type, [])])"

subsection \<open>Response models\<close>

record ListResponseStudent =
  name :: string
  age :: int

record StudentCollection =
  data :: "ListResponseStudent list"

record CreateStudentResponse =
  id' :: string

record GetSingleStudentResponse =
  name :: string
  age :: int
  address :: AddressModel

text \<open>What a handler returns: the status code of its route and the content.\<close>

datatype content =
    Created CreateStudentResponse
  | Listed StudentCollection
  | Single GetSingleStudentResponse
  | Empty

record response =
  status_code :: nat
  content :: content

subsection \<open>Store identifiers\<close>

text \<open>
  An \<^verbatim>\<open>ObjectId\<close> is its \<^verbatim>\<open>binary\<close>, twelve bytes. \<^verbatim>\<open>ObjectId(s)\<close> takes a string of 24
  hexadecimal digits and raises \<^verbatim>\<open>InvalidId\<close> on any other string (\<open>None\<close> here);
  \<^verbatim>\<open>str(oid)\<close> writes the bytes as 24 lower-case hexadecimal digits.
\<close>

type_synonym ObjectId = "8 word list"

definition hex_value :: "char \<Rightarrow> nat option" where
  "hex_value c =
     (let n = (of_char c :: nat)
      in if 48 \<le> n \<and> n \<le> 57 then Some (n - 48)
         else if 97 \<le> n \<and> n \<le> 102 then Some (n - 87)
         else if 65 \<le> n \<and> n \<le> 70 then Some (n - 55)
         else None)"

fun fromhex :: "string \<Rightarrow> 8 word list option" where
  "fromhex [] = Some []"
| "fromhex [c] = None"
| "fromhex (a # b # cs) =
     (case (hex_value a, hex_value b, fromhex cs) of
        (Some h, Some l, Some bs) \<Rightarrow> Some (word_of_nat (16 * h + l) # bs)
      | _ \<Rightarrow> None)"

definition ObjectId :: "string \<Rightarrow> ObjectId option" where
  "ObjectId s = (if length s = 24 then fromhex s else None)"




subsection \<open>The collection\<close>

text \<open>
  The persisted document: \<^verbatim>\<open>{_id, name, age, address: {city, country}}\<close> (\<^verbatim>\<open>_id\<close> is
  \<open>doc_id\<close> here). The collection is the list of its documents in natural order.
\<close>

record document =
  doc_id :: ObjectId
  name :: string
  age :: int
  address :: AddressModel

type_synonym collection = "document list"

text \<open>The exceptions that leave a handler.\<close>

datatype exn =
    HTTPException nat string
  | InvalidId string
  | DuplicateKeyError ObjectId
  | TypeError
  | RequestValidationError "validation_error list"

text \<open>
  \<^verbatim>\<open>student.model_dump(by_alias=True, exclude=["id"])\<close>: the dict of the model without
  its \<^verbatim>\<open>id\<close>.
\<close>

record student_dict =
  name :: string
  age :: int
  address :: AddressModel




text \<open>\<^verbatim>\<open>find_one({"_id": oid})\<close>: the first document with that identifier.\<close>

definition find_one :: "ObjectId \<Rightarrow> collection \<Rightarrow> document option" where
  "find_one oid coll = List.find (\<lambda>d. doc_id d = oid) coll"

text \<open>The projection \<^verbatim>\<open>{"_id": 0}\<close>, read through \<^verbatim>\<open>GetSingleStudentResponse\<close>.\<close>

definition without_id :: "document \<Rightarrow> GetSingleStudentResponse" where
  "without_id d =
     \<lparr>GetSingleStudentResponse.name = document.name d,
      GetSingleStudentResponse.age = document.age d,
      GetSingleStudentResponse.address = document.address d\<rparr>"






text \<open>
  An item of the dict that \<^verbatim>\<open>update_student\<close> sends under \<^verbatim>\<open>$set\<close>: the value of one of
  the three fields (the constructor tells which).
\<close>

datatype field_value =
    name_value string
  | age_value int
  | address_value AddressModel

fun set_field :: "string \<times> field_value \<Rightarrow> document \<Rightarrow> document" where
  "set_field (k, name_value x) d = d\<lparr>document.name := x\<rparr>"
| "set_field (k, age_value x) d = d\<lparr>document.age := x\<rparr>"
| "set_field (k, address_value x) d = d\<lparr>document.address := x\<rparr>"

record UpdateResult =
  matched_count :: nat
  modified_count :: nat

text \<open>
  \<^verbatim>\<open>update_one({"_id": oid}, {"$set": update_data})\<close>: the first document with that
  identifier gets the fields; it counts as modified when it is not what it was.
\<close>

fun update_one ::
  "ObjectId \<Rightarrow> (string \<times> field_value) list \<Rightarrow> collection \<Rightarrow> UpdateResult \<times> collection" where
  "update_one oid update_data [] = (\<lparr>matched_count = 0, modified_count = 0\<rparr>, [])"
| "update_one oid update_data (d # ds) =
     (if doc_id d = oid then
        (let d' = fold set_field update_data d
         in (\<lparr>matched_count = 1, modified_count = (if d' = d then 0 else 1)\<rparr>, d' # ds))
      else
        (case update_one oid update_data ds of (r, ds') \<Rightarrow> (r, d # ds')))"

record DeleteResult =
  deleted_count :: nat

text \<open>\<^verbatim>\<open>delete_one({"_id": oid})\<close>: the first document with that identifier goes.\<close>

fun delete_one :: "ObjectId \<Rightarrow> collection \<Rightarrow> DeleteResult \<times> collection" where
  "delete_one oid [] = (\<lparr>deleted_count = 0\<rparr>, [])"
| "delete_one oid (d # ds) =
     (if doc_id d = oid then (\<lparr>deleted_count = 1\<rparr>, ds)
      else (case delete_one oid ds of (r, ds') \<Rightarrow> (r, d # ds')))"

subsection \<open>Request handlers\<close>

type_synonym outcome = "(exn + response) \<times> collection"




definition not_found :: "string \<Rightarrow> exn" where
  "not_found sid = HTTPException 404 (''Student '' @ sid @ '' not found'')"

text \<open>\<^verbatim>\<open>fetch_student\<close>.\<close>

definition fetch_student :: "string \<Rightarrow> collection \<Rightarrow> outcome" where
  "fetch_student sid coll =
     (case ObjectId sid of
        None \<Rightarrow> (Inl (InvalidId sid), coll)
      | Some oid \<Rightarrow>
          (case find_one oid coll of
             Some student \<Rightarrow> (Inr \<lparr>status_code = 200, content = Single (without_id student)\<rparr>, coll)
           | None \<Rightarrow> (Inl (not_found sid), coll)))"

text \<open>
  \<^verbatim>\<open>student.model_dump(exclude_unset=True)\<close>: the items of the fields that were set, a
  value that is \<^verbatim>\<open>None\<close> being \<open>None\<close>.
\<close>

definition model_dump_exclude_unset ::
  "UpdateStudentModel \<Rightarrow> (string \<times> field_value option) list" where
  "model_dump_exclude_unset student =
     filter (\<lambda>(k, v). k \<in> model_fields_set student)
       [(''name'', map_option name_value (UpdateStudentModel.name student)),
        (''age'', map_option age_value (UpdateStudentModel.age student)),
        (''address'', map_option address_value (UpdateStudentModel.address student))]"

text \<open>\<^verbatim>\<open>{k: v for k, v in ... if v is not None}\<close>.\<close>

definition update_data_of :: "UpdateStudentModel \<Rightarrow> (string \<times> field_value) list" where
  "update_data_of student = [(k, v). (k, Some v) \<leftarrow> model_dump_exclude_unset student]"

text \<open>The tail of \<^verbatim>\<open>update_student\<close>: the probe for the document and what follows it.\<close>

definition existence_probe :: "string \<Rightarrow> collection \<Rightarrow> outcome" where
  "existence_probe sid coll =
     (case ObjectId sid of
        None \<Rightarrow> (Inl (InvalidId sid), coll)
      | Some oid \<Rightarrow>
          (case find_one oid coll of
             Some existing_student \<Rightarrow> (Inr \<lparr>status_code = 204, content = Empty\<rparr>, coll)
           | None \<Rightarrow> (Inl (not_found sid), coll)))"

text \<open>\<^verbatim>\<open>update_student\<close>.\<close>

definition update_student :: "string \<Rightarrow> UpdateStudentModel \<Rightarrow> collection \<Rightarrow> outcome" where
  "update_student sid student coll =
     (let update_data = update_data_of student
      in if length update_data > 0 then
           (case ObjectId sid of
              None \<Rightarrow> (Inl (InvalidId sid), coll)
            | Some oid \<Rightarrow>
                (case update_one oid update_data coll of
                   (update_result, coll') \<Rightarrow>
                     if modified_count update_result = 1
                     then (Inr \<lparr>status_code = 204, content = Empty\<rparr>, coll')
                     else existence_probe sid coll'))
         else existence_probe sid coll)"

text \<open>\<^verbatim>\<open>delete_student\<close>.\<close>

definition delete_student :: "string \<Rightarrow> collection \<Rightarrow> outcome" where
  "delete_student sid coll =
     (case ObjectId sid of
        None \<Rightarrow> (Inl (InvalidId sid), coll)
      | Some oid \<Rightarrow>
          (case delete_one oid coll of
             (delete_result, coll') \<Rightarrow>
               if deleted_count delete_result = 1
               then (Inr \<lparr>status_code = 200, content = Empty\<rparr>, coll')
               else (Inl (not_found sid), coll')))"

subsection \<open>Routes\<close>


definition patch_students ::
  "(json \<Rightarrow> int option) \<Rightarrow> string \<Rightarrow> json \<Rightarrow> collection \<Rightarrow> outcome" where
  "patch_students int_type sid body coll =
     (case UpdateStudentModel_validate int_type body of
        Inl es \<Rightarrow> (Inl (RequestValidationError es), coll)
      | Inr student \<Rightarrow> update_student sid student coll)"

text \<open>
  The status code on the wire: the route's own for a returned response, the exception's
  for an \<^verbatim>\<open>HTTPException\<close>, 422 for a body that failed validation, and 500 for any
  other exception, which nothing in the application handles.
\<close>

fun http_status :: "exn + response \<Rightarrow> nat" where
  "http_status (Inr r) = status_code r"
| "http_status (Inl (HTTPException code detail)) = code"
| "http_status (Inl (RequestValidationError es)) = 422"
| "http_status (Inl _) = 500"

text \<open>
  Two coercions for worked examples: the integers among the decoded values, read as
  themselves, and a rendering of scalars as strings.
\<close>

definition only_int :: "json \<Rightarrow> int option" where
  "only_int v = (case v of JInt i \<Rightarrow> Some i | _ \<Rightarrow> None)"


section \<open>Properties of the store primitives\<close>

lemma find_one_None_iff: "find_one oid coll = None \<longleftrightarrow> oid \<notin> set (map doc_id coll)"
  by (induction coll) (auto simp: find_one_def)

lemma find_one_SomeD: "find_one oid coll = Some d \<Longrightarrow> d \<in> set coll \<and> doc_id d = oid"
  by (induction coll) (auto simp: find_one_def split: if_splits)

lemma find_one_distinct:
  "distinct (map doc_id coll) \<Longrightarrow> d \<in> set coll \<Longrightarrow> find_one (doc_id d) coll = Some d"
  by (induction coll) (auto simp: find_one_def)










lemma doc_id_set_field: "doc_id (set_field kv d) = doc_id d"
  by (cases kv; cases "snd kv") auto

lemma doc_id_fold_set_field: "doc_id (fold set_field upd d) = doc_id d"
  by (induction upd arbitrary: d) (simp_all add: doc_id_set_field)

lemma update_one_ids: "map doc_id (snd (update_one oid upd coll)) = map doc_id coll"
  by (induction coll) (auto simp: Let_def doc_id_fold_set_field split: prod.splits)

lemma update_one_modified_le: "modified_count (fst (update_one oid upd coll)) \<le> 1"
  by (induction coll) (auto simp: Let_def split: prod.splits)


lemma delete_one_count:
  "deleted_count (fst (delete_one oid coll)) = (if oid \<in> set (map doc_id coll) then 1 else 0)"
  by (induction coll) (auto split: prod.splits)

lemma delete_one_absent: "oid \<notin> set (map doc_id coll) \<Longrightarrow> snd (delete_one oid coll) = coll"
  by (induction coll) (auto split: prod.splits)

lemma delete_one_distinct:
  "distinct (map doc_id coll) \<Longrightarrow> snd (delete_one oid coll) = filter (\<lambda>d. doc_id d \<noteq> oid) coll"
proof (induction coll)
  case Nil
  then show ?case by simp
next
  case (Cons d ds)
  show ?case
  proof (cases "doc_id d = oid")
    case True
    with Cons.prems have "\<forall>e \<in> set ds. doc_id e \<noteq> oid" by (metis distinct.simps(2) image_eqI list.simps(9) set_map)
    then have "filter (\<lambda>d. doc_id d \<noteq> oid) ds = ds" by (simp add: filter_id_conv)
    with True show ?thesis by simp
  next
    case False
    with Cons show ?thesis by (auto split: prod.splits)
  qed
qed


section \<open>Properties of the request handlers\<close>

subsection \<open>Malformed identifiers\<close>




subsection \<open>Create\<close>



subsection \<open>Fetch\<close>

lemma ObjectId_jane:
  "ObjectId ''507f1f77bcf86cd799439011''
     = Some [0x50,0x7f,0x1f,0x77,0xbc,0xf8,0x6c,0xd7,0x99,0x43,0x90,0x11]"
  by (simp add: ObjectId_def hex_value_def)

text \<open>
  C5. For a fetch whose id is the string form of an identifier: when it is the
  identifier of a stored document (identifiers being unique in the collection), the
  response is a 200 whose body is that document's name, age and address, a model that
  has no id field; when no stored document has it, the response is a 404 whose detail
  is \<^verbatim>\<open>Student {id} not found\<close> with the id as it was requested. The collection is
  left as it was.
\<close>

theorem fetch_student_outcome:
  assumes "ObjectId sid = Some oid"
  shows "(\<forall>d \<in> set coll. doc_id d = oid \<longrightarrow> distinct (map doc_id coll) \<longrightarrow>
            fetch_student sid coll =
              (Inr \<lparr>status_code = 200,
                    content = Single \<lparr>GetSingleStudentResponse.name = document.name d,
                                      age = document.age d,
                                      address = document.address d\<rparr>\<rparr>, coll))
       \<and> ((\<forall>d \<in> set coll. doc_id d \<noteq> oid) \<longrightarrow>
            fetch_student sid coll =
              (Inl (HTTPException 404 (''Student '' @ sid @ '' not found'')), coll))"
proof (intro conjI ballI impI)
  fix d assume "d \<in> set coll" "doc_id d = oid" "distinct (map doc_id coll)"
  then have "find_one oid coll = Some d" using find_one_distinct by blast
  with assms show "fetch_student sid coll =
              (Inr \<lparr>status_code = 200,
                    content = Single \<lparr>GetSingleStudentResponse.name = document.name d,
                                      age = document.age d,
                                      address = document.address d\<rparr>\<rparr>, coll)"
    by (simp add: fetch_student_def without_id_def)
next
  assume "\<forall>d \<in> set coll. doc_id d \<noteq> oid"
  then have "oid \<notin> set (map doc_id coll)" by auto
  then have "find_one oid coll = None" by (simp add: find_one_None_iff)
  with assms show "fetch_student sid coll =
              (Inl (HTTPException 404 (''Student '' @ sid @ '' not found'')), coll)"
    by (simp add: fetch_student_def not_found_def)
qed


theorem fetch_student_outcome_witness:
  "ObjectId ''507f1f77bcf86cd799439011''
     = Some [0x50,0x7f,0x1f,0x77,0xbc,0xf8,0x6c,0xd7,0x99,0x43,0x90,0x11]
   \<and> fetch_student ''507f1f77bcf86cd799439011''
        [\<lparr>doc_id = [0x50,0x7f,0x1f,0x77,0xbc,0xf8,0x6c,0xd7,0x99,0x43,0x90,0x11],
          name = ''Jane Doe'', age = 22,
          address = \<lparr>city = ''Agra'', country = ''India''\<rparr>\<rparr>]
     = (Inr \<lparr>status_code = 200,
             content = Single \<lparr>GetSingleStudentResponse.name = ''Jane Doe'', age = 22,
                               address = \<lparr>city = ''Agra'', country = ''India''\<rparr>\<rparr>\<rparr>,
        [\<lparr>doc_id = [0x50,0x7f,0x1f,0x77,0xbc,0xf8,0x6c,0xd7,0x99,0x43,0x90,0x11],
          name = ''Jane Doe'', age = 22,
          address = \<lparr>city = ''Agra'', country = ''India''\<rparr>\<rparr>])
   \<and> fetch_student ''507f1f77bcf86cd799439011'' []
     = (Inl (HTTPException 404 ''Student 507f1f77bcf86cd799439011 not found''), [])"
  using ObjectId_jane
    fetch_student_outcome [OF ObjectId_jane, of
      "[\<lparr>doc_id = [0x50,0x7f,0x1f,0x77,0xbc,0xf8,0x6c,0xd7,0x99,0x43,0x90,0x11],
         name = ''Jane Doe'', age = 22,
         address = \<lparr>city = ''Agra'', country = ''India''\<rparr>\<rparr>]"]
    fetch_student_outcome [OF ObjectId_jane, of "[]"]
  by simp

subsection \<open>Delete\<close>

text \<open>
  C6. For a delete whose id is the string form of an identifier, the delete is scoped
  to that identifier: a deleted count of one gives a 200 with empty content and the
  collection that \<^verbatim>\<open>delete_one\<close> left, a deleted count of zero gives a 404 whose
  detail names the id, and the count is one or zero. With unique identifiers the
  documents left are those with another identifier, so deleting the same id a second
  time gives the 404, not an exception.
\<close>

theorem delete_student_outcome:
  assumes "ObjectId sid = Some oid"
  shows "(deleted_count (fst (delete_one oid coll)) = 1 \<longrightarrow>
            delete_student sid coll =
              (Inr \<lparr>status_code = 200, content = Empty\<rparr>, snd (delete_one oid coll)))
       \<and> (deleted_count (fst (delete_one oid coll)) = 0 \<longrightarrow>
            delete_student sid coll =
              (Inl (HTTPException 404 (''Student '' @ sid @ '' not found'')), coll))
       \<and> (deleted_count (fst (delete_one oid coll)) = 1
            \<or> deleted_count (fst (delete_one oid coll)) = 0)
       \<and> (distinct (map doc_id coll) \<longrightarrow>
            snd (delete_student sid coll) = filter (\<lambda>d. doc_id d \<noteq> oid) coll
            \<and> delete_student sid (snd (delete_student sid coll)) =
                (Inl (HTTPException 404 (''Student '' @ sid @ '' not found'')),
                 snd (delete_student sid coll)))"
proof -
  have eq: "delete_student sid coll =
      (if oid \<in> set (map doc_id coll)
       then (Inr \<lparr>status_code = 200, content = Empty\<rparr>, snd (delete_one oid coll))
       else (Inl (not_found sid), coll))" for coll
    using assms delete_one_count [of oid coll] delete_one_absent [of oid coll]
    by (auto simp: delete_student_def split: prod.splits if_splits)
  have a: "deleted_count (fst (delete_one oid coll)) = 1 \<longrightarrow>
            delete_student sid coll =
              (Inr \<lparr>status_code = 200, content = Empty\<rparr>, snd (delete_one oid coll))"
    by (simp add: eq delete_one_count)
  have b: "deleted_count (fst (delete_one oid coll)) = 0 \<longrightarrow>
            delete_student sid coll =
              (Inl (HTTPException 404 (''Student '' @ sid @ '' not found'')), coll)"
    by (simp add: eq delete_one_count not_found_def)
  have c: "deleted_count (fst (delete_one oid coll)) = 1
            \<or> deleted_count (fst (delete_one oid coll)) = 0"
    by (simp add: delete_one_count)
  have d: "snd (delete_student sid coll) = filter (\<lambda>d. doc_id d \<noteq> oid) coll
            \<and> delete_student sid (snd (delete_student sid coll)) =
                (Inl (HTTPException 404 (''Student '' @ sid @ '' not found'')),
                 snd (delete_student sid coll))"
    if dist: "distinct (map doc_id coll)"
  proof -
    have s: "snd (delete_student sid coll) = filter (\<lambda>d. doc_id d \<noteq> oid) coll"
    proof (cases "oid \<in> set (map doc_id coll)")
      case True
      then show ?thesis by (simp add: eq delete_one_distinct [OF dist])
    next
      case False
      then have "\<forall>d \<in> set coll. doc_id d \<noteq> oid" by auto
      then have "filter (\<lambda>d. doc_id d \<noteq> oid) coll = coll" by (simp add: filter_id_conv)
      with False show ?thesis by (simp add: eq)
    qed
    have "oid \<notin> set (map doc_id (filter (\<lambda>d. doc_id d \<noteq> oid) coll))" by auto
    then show ?thesis using s eq [of "filter (\<lambda>d. doc_id d \<noteq> oid) coll"]
      by (simp add: not_found_def)
  qed
  from a b c d show ?thesis by blast
qed

theorem delete_student_outcome_witness:
  "ObjectId ''507f1f77bcf86cd799439011'' = Some [0x50,0x7f,0x1f,0x77,0xbc,0xf8,0x6c,0xd7,0x99,0x43,0x90,0x11]
   \<and> distinct (map doc_id [\<lparr>doc_id = [0x50,0x7f,0x1f,0x77,0xbc,0xf8,0x6c,0xd7,0x99,0x43,0x90,0x11],
          name = ''Jane Doe'', age = 22,
          address = \<lparr>city = ''Agra'', country = ''India''\<rparr>\<rparr>])
   \<and> delete_student ''507f1f77bcf86cd799439011''
        [\<lparr>doc_id = [0x50,0x7f,0x1f,0x77,0xbc,0xf8,0x6c,0xd7,0x99,0x43,0x90,0x11],
          name = ''Jane Doe'', age = 22,
          address = \<lparr>city = ''Agra'', country = ''India''\<rparr>\<rparr>]
     = (Inr \<lparr>status_code = 200, content = Empty\<rparr>, [])
   \<and> delete_student ''507f1f77bcf86cd799439011''
        (snd (delete_student ''507f1f77bcf86cd799439011''
          [\<lparr>doc_id = [0x50,0x7f,0x1f,0x77,0xbc,0xf8,0x6c,0xd7,0x99,0x43,0x90,0x11],
          name = ''Jane Doe'', age = 22,
          address = \<lparr>city = ''Agra'', country = ''India''\<rparr>\<rparr>]))
     = (Inl (HTTPException 404 ''Student 507f1f77bcf86cd799439011 not found''), [])
   \<and> delete_student ''507f1f77bcf86cd799439011'' []
     = (Inl (HTTPException 404 ''Student 507f1f77bcf86cd799439011 not found''), [])"
  using ObjectId_jane
    delete_student_outcome [OF ObjectId_jane, of
      "[\<lparr>doc_id = [0x50,0x7f,0x1f,0x77,0xbc,0xf8,0x6c,0xd7,0x99,0x43,0x90,0x11],
          name = ''Jane Doe'', age = 22,
          address = \<lparr>city = ''Agra'', country = ''India''\<rparr>\<rparr>]"]
    delete_student_outcome [OF ObjectId_jane, of "[]"]
  by simp

subsection \<open>Update\<close>








subsection \<open>List\<close>






section \<open>Properties of validation\<close>












subsection \<open>Creation payloads\<close>




subsection \<open>Update payloads\<close>

text \<open>
  C2, what the code does with a body that leaves fields out. The empty body fails
  validation of \<^verbatim>\<open>UpdateStudentModel\<close> with one \<^verbatim>\<open>missing\<close> error for each of name, age
  and address, and the body \<^verbatim>\<open>{"age": 23}\<close> fails with the errors for name and
  address: the request is answered with a 422 and \<^verbatim>\<open>update_student\<close> does not run.
\<close>

theorem UpdateStudentModel_requires_every_field:
  "UpdateStudentModel_validate int_type (JObj [])
     = Inl [(missing, [''name'']), (missing, [''age'']), (missing, [''address''])]
   \<and> patch_students int_type sid (JObj []) coll
     = (Inl (RequestValidationError
              [(missing, [''name'']), (missing, [''age'']), (missing, [''address''])]), coll)
   \<and> patch_students only_int sid (JObj [(''age'', JInt 23)]) coll
     = (Inl (RequestValidationError [(missing, [''name'']), (missing, [''address''])]), coll)
   \<and> http_status (fst (patch_students only_int sid (JObj [(''age'', JInt 23)]) coll)) = 422"
  by (simp add: patch_students_def UpdateStudentModel_validate_def required_field_def
      dict_get_def errors_of_def optional_def int_validator_def only_int_def Let_def)

subsection \<open>Create, then fetch\<close>



end
